theory Spec2Isabelle
  imports Complex_Main "HOL-Library.Log_Nat"
begin

section \<open>Data model\<close>

text \<open>
  The QR payload as the scanner receives it after \<^verbatim>\<open>JSON.parse\<close>
  (\<^verbatim>\<open>{employeeId, firstName, lastName, role, department?, checkInTime, signature}\<close>).
  Every field is a string; \<open>department\<close> may be absent.
\<close>

record qr_payload =
  employeeId :: string
  firstName :: string
  lastName :: string
  role :: string
  department :: "string option"
  checkInTime :: string
  signature :: string

text \<open>
  A JavaScript \<^verbatim>\<open>Date\<close>, seen through the four observers the services call:
  \<^verbatim>\<open>getTime()\<close> (milliseconds since the epoch, what \<^verbatim>\<open>a - b\<close> subtracts),
  \<^verbatim>\<open>toISOString()\<close> (UTC), and \<^verbatim>\<open>getHours()\<close>, \<^verbatim>\<open>getMinutes()\<close>
  (local time).
\<close>

record js_date =
  getTime :: int
  toISOString :: string
  getHours :: nat
  getMinutes :: nat

text \<open>
  A row of \<^verbatim>\<open>attendance_records\<close>. The column \<open>scanned_at\<close> is a
  \<^verbatim>\<open>TIMESTAMPTZ\<close>: the model keeps the instant in milliseconds, the time value of
  the \<^verbatim>\<open>Date\<close> that \<^verbatim>\<open>new Date(row.scanned_at)\<close> reads back. \<open>scanned_date\<close> is
  filled by the trigger \<^verbatim>\<open>set_scanned_date\<close> with \<^verbatim>\<open>DATE(scanned_at)\<close>.
\<close>

record attendance_record =
  employee_id :: string
  employee_name :: string
  employee_role :: string
  record_department :: "string option"
  check_in_time :: string
  scanned_at :: int
  scanned_date :: string
  scan_type :: string
  is_late :: bool
  is_early_departure :: bool
  is_half_day :: bool
  signature_verified :: bool
  qr_data :: qr_payload

text \<open>A row of \<^verbatim>\<open>leave_requests\<close>.\<close>

record leave_request =
  leave_employee_id :: string
  leave_date :: string
  leave_type :: string
  reason :: string
  status :: string

text \<open>
  The hosted database behind the \<^verbatim>\<open>supabase\<close> client: the two tables the services
  read and write, and the ids of the \<^verbatim>\<open>employees\<close> table that
  \<^verbatim>\<open>attendance_records.employee_id\<close> references. The exported client is
  \<^verbatim>\<open>null\<close> when the environment is not configured, so the services take a
  \<open>backend option\<close>.
\<close>

record backend =
  attendance_records :: "attendance_record list"
  leave_requests :: "leave_request list"
  employees :: "string list"

text \<open>What \<^verbatim>\<open>detectScanType\<close> returns.\<close>

record scan_detection =
  scanType :: string
  isLate :: bool
  isEarly :: bool

section \<open>Signature verification\<close>

text \<open>
  \<^verbatim>\<open>import.meta.env.VITE_QR_SECRET_KEY || 'artihcus_attendance_secret_2025'\<close>:
  an unset or empty variable is falsy and gives the default key.
\<close>

definition SECRET_KEY :: "string option \<Rightarrow> string" where
  "SECRET_KEY env =
     (case env of
        None \<Rightarrow> ''artihcus_attendance_secret_2025''
      | Some k \<Rightarrow> if k = [] then ''artihcus_attendance_secret_2025'' else k)"

text \<open>\<^verbatim>\<open>department || ''\<close>: an absent and an empty department both give the empty string.\<close>

definition department_or_empty :: "string option \<Rightarrow> string" where
  "department_or_empty d = (case d of None \<Rightarrow> [] | Some s \<Rightarrow> if s = [] then [] else s)"

text \<open>
  The template literal
  \<^verbatim>\<open>`${employeeId}|${firstName}|${lastName}|${role}|${department || ''}|${checkInTime}`\<close>.
\<close>

definition dataToSign :: "qr_payload \<Rightarrow> string" where
  "dataToSign qrData =
     employeeId qrData @ ''|'' @ firstName qrData @ ''|'' @ lastName qrData @ ''|'' @
     role qrData @ ''|'' @ department_or_empty (department qrData) @ ''|'' @ checkInTime qrData"

text \<open>
  \<^verbatim>\<open>verifyQrSignature\<close>. The library call
  \<^verbatim>\<open>CryptoJS.HmacSHA256(message, key).toString(CryptoJS.enc.Hex)\<close> is the parameter
  \<open>hmacHex\<close>, with the library's argument order (message first); \<open>env\<close> is the
  environment variable holding the key. \<^verbatim>\<open>===\<close> on two strings is equality of
  the character sequences.
\<close>

definition verifyQrSignature ::
  "(string \<Rightarrow> string \<Rightarrow> string) \<Rightarrow> string option \<Rightarrow> qr_payload \<Rightarrow> bool" where
  "verifyQrSignature hmacHex env qrData =
     (let expectedSignature = hmacHex (dataToSign qrData) (SECRET_KEY env)
      in expectedSignature = signature qrData)"

text \<open>
  The signed string as the specification words it: the six fields
  \<open>employeeId, firstName, lastName, role, department-or-empty, checkInTime\<close>
  joined with the literal pipe character.
\<close>

fun join_pipe :: "string list \<Rightarrow> string" where
  "join_pipe [] = []"
| "join_pipe [x] = x"
| "join_pipe (x # y # ys) = x @ CHR ''|'' # join_pipe (y # ys)"

definition spec_signed_string :: "qr_payload \<Rightarrow> string" where
  "spec_signed_string q =
     join_pipe [employeeId q, firstName q, lastName q, role q,
                (case department q of None \<Rightarrow> [] | Some d \<Rightarrow> d), checkInTime q]"

section \<open>Timestamp freshness\<close>

text \<open>
  \<^verbatim>\<open>isTimestampFresh\<close>. \<open>parseDate\<close> is the runtime's
  \<^verbatim>\<open>new Date(string)\<close>: the instant in milliseconds, or \<open>None\<close> for an
  Invalid Date (whose time value is NaN, so that both comparisons are false). \<open>now\<close> is
  \<^verbatim>\<open>new Date()\<close> in milliseconds. The quotient \<^verbatim>\<open>(now - qrTime) / 1000\<close>
  is a double in the source and an exact rational here; comparing it with the integers 0 and 60
  gives the same answer in both, because rounding to a double is monotone and fixes 0 and 60.
\<close>

definition isTimestampFresh :: "(string \<Rightarrow> int option) \<Rightarrow> int \<Rightarrow> string \<Rightarrow> bool" where
  "isTimestampFresh parseDate now checkInTime' =
     (case parseDate checkInTime' of
        None \<Rightarrow> False
      | Some qrTime \<Rightarrow>
          (let ageInSeconds = (of_int (now - qrTime) :: rat) / 1000
           in ageInSeconds \<ge> 0 \<and> ageInSeconds \<le> 60))"

section \<open>Scan classification\<close>

text \<open>\<^verbatim>\<open>date.toISOString().split('T')[0]\<close>: the text before the first \<open>T\<close>.\<close>

definition isoDate :: "js_date \<Rightarrow> string" where
  "isoDate d = takeWhile (\<lambda>c. c \<noteq> CHR ''T'') (toISOString d)"

text \<open>
  The query \<^verbatim>\<open>from('attendance_records').eq('employee_id', e).eq('scanned_date', d)
  .order('scanned_at', {ascending: true})\<close>.
\<close>

definition scansOn :: "backend \<Rightarrow> string \<Rightarrow> string \<Rightarrow> attendance_record list" where
  "scansOn db e d =
     sort_key scanned_at
       (filter (\<lambda>r. employee_id r = e \<and> scanned_date r = d) (attendance_records db))"

text \<open>The thresholds, in minutes from midnight.\<close>

definition LUNCH_START :: nat where "LUNCH_START = 12 * 60"
definition LUNCH_END :: nat where "LUNCH_END = 14 * 60"
definition EXPECTED_CHECK_IN :: nat where "EXPECTED_CHECK_IN = 9 * 60"
definition EXPECTED_CHECK_OUT :: nat where "EXPECTED_CHECK_OUT = 18 * 60"
definition LATE_THRESHOLD :: nat where "LATE_THRESHOLD = 15"

text \<open>
  \<^verbatim>\<open>detectScanType\<close>: the branch for a missing client, then the chain of
  \<^verbatim>\<open>if / else if\<close> in the order of the source. \<^verbatim>\<open>scanTypes.includes(x)\<close>
  is membership in the list of the day's scan types.
\<close>

definition detectScanType :: "backend option \<Rightarrow> string \<Rightarrow> js_date \<Rightarrow> scan_detection" where
  "detectScanType supabase employeeId' scanTime =
     (case supabase of
        None \<Rightarrow> \<lparr>scanType = ''check_in'', isLate = False, isEarly = False\<rparr>
      | Some db \<Rightarrow>
          (let today = isoDate scanTime;
               scanTypes = map scan_type (scansOn db employeeId' today);
               currentTime = getHours scanTime * 60 + getMinutes scanTime
           in if ''check_in'' \<notin> set scanTypes then
                \<lparr>scanType = ''check_in'',
                 isLate = (currentTime > EXPECTED_CHECK_IN + LATE_THRESHOLD),
                 isEarly = False\<rparr>
              else if ''lunch_out'' \<notin> set scanTypes \<and> currentTime \<ge> LUNCH_START then
                \<lparr>scanType = ''lunch_out'', isLate = False, isEarly = False\<rparr>
              else if ''lunch_out'' \<in> set scanTypes \<and> ''lunch_in'' \<notin> set scanTypes then
                \<lparr>scanType = ''lunch_in'', isLate = False, isEarly = False\<rparr>
              else if ''lunch_in'' \<in> set scanTypes \<and> ''check_out'' \<notin> set scanTypes then
                \<lparr>scanType = ''check_out'', isLate = False,
                 isEarly = (currentTime < EXPECTED_CHECK_OUT)\<rparr>
              else
                \<lparr>scanType = ''check_out'', isLate = False, isEarly = False\<rparr>))"

text \<open>
  The scan types already recorded for an employee on the day of a scan, and the scan's
  minutes from midnight: the two things the decision depends on.
\<close>

definition priorScanTypes :: "backend \<Rightarrow> string \<Rightarrow> js_date \<Rightarrow> string set" where
  "priorScanTypes db e t = set (map scan_type (scansOn db e (isoDate t)))"

definition minutesOfDay :: "js_date \<Rightarrow> nat" where
  "minutesOfDay t = getHours t * 60 + getMinutes t"

section \<open>Attendance writer\<close>

text \<open>
  PostgREST's \<^verbatim>\<open>.single()\<close>: the row when the query matches exactly one, and
  \<^verbatim>\<open>data: null\<close> (with an error the callers below do not read) when it matches
  none or several.
\<close>

definition single :: "'a list \<Rightarrow> 'a option" where
  "single rows = (case rows of [r] \<Rightarrow> Some r | _ \<Rightarrow> None)"

text \<open>
  \<^verbatim>\<open>from('leave_requests').select('*').eq('employee_id', e).eq('leave_date', d)
  .eq('status', 'approved').single()\<close>
\<close>

definition approvedLeave :: "backend \<Rightarrow> string \<Rightarrow> string \<Rightarrow> leave_request option" where
  "approvedLeave db e d =
     single (filter (\<lambda>l. leave_employee_id l = e \<and> leave_date l = d \<and> status l = ''approved'')
               (leave_requests db))"

text \<open>
  \<^verbatim>\<open>from('attendance_records').select('id').eq('employee_id', e).eq('scanned_date', d)
  .eq('scan_type', st).single()\<close>
\<close>

definition scansOfType ::
  "backend \<Rightarrow> string \<Rightarrow> string \<Rightarrow> string \<Rightarrow> attendance_record list" where
  "scansOfType db e d st =
     filter (\<lambda>r. employee_id r = e \<and> scanned_date r = d \<and> scan_type r = st)
       (attendance_records db)"

definition existingScan ::
  "backend \<Rightarrow> string \<Rightarrow> string \<Rightarrow> string \<Rightarrow> attendance_record option" where
  "existingScan db e d st = single (scansOfType db e d st)"

text \<open>
  \<^verbatim>\<open>str.replace('_', ' ')\<close> with a string pattern replaces the first occurrence only.
\<close>

fun replace_first :: "char \<Rightarrow> char \<Rightarrow> string \<Rightarrow> string" where
  "replace_first a b [] = []"
| "replace_first a b (c # cs) = (if c = a then b # cs else c # replace_first a b cs)"

text \<open>
  The insert into \<^verbatim>\<open>attendance_records\<close>. The table declares
  \<^verbatim>\<open>employee_id UUID NOT NULL REFERENCES employees(id)\<close>, so the backend refuses a
  row of an unknown employee; otherwise the row is appended and returned
  (\<^verbatim>\<open>.select().single()\<close>); \<open>foreign_key_message\<close> is the message of PostgreSQL
  for the violated constraint, with its default name (\<open>CHR 0x22\<close> is the double quote),
  which the source passes through. The migration that introduces
  \<open>scan_type\<close> drops the unique index on \<open>(employee_id, scanned_date)\<close> and creates a
  plain index on \<open>(employee_id, scanned_date, scan_type)\<close>, so no uniqueness is enforced here.
\<close>

definition foreign_key_message :: string where
  "foreign_key_message =
     ''insert or update on table '' @ [CHR 0x22] @ ''attendance_records'' @ [CHR 0x22] @
     '' violates foreign key constraint '' @ [CHR 0x22] @
     ''attendance_records_employee_id_fkey'' @ [CHR 0x22]"

definition insert_attendance ::
  "backend \<Rightarrow> attendance_record \<Rightarrow> string + attendance_record \<times> backend" where
  "insert_attendance db r =
     (if employee_id r \<in> set (employees db)
      then Inr (r, db\<lparr>attendance_records := attendance_records db @ [r]\<rparr>)
      else Inl foreign_key_message)"

text \<open>\<^verbatim>\<open>department || null\<close>\<close>

definition department_or_null :: "string option \<Rightarrow> string option" where
  "department_or_null d = (case d of None \<Rightarrow> None | Some s \<Rightarrow> if s = [] then None else Some s)"

text \<open>
  \<^verbatim>\<open>markAttendance\<close>, with \<^verbatim>\<open>new Date()\<close> as the argument \<open>scanTime\<close>.
  The result is \<open>Inl error\<close> for \<^verbatim>\<open>{success: false, error}\<close> and
  \<open>Inr (data, scanType)\<close> for \<^verbatim>\<open>{success: true, data, scanType}\<close>, paired with
  the backend after the call. The inserted object carries no \<open>scanned_date\<close>: the row gets
  the one the trigger derives from \<open>scanned_at\<close>, the UTC date, which is the string
  \<open>today\<close>. The backend answers every query, so the \<^verbatim>\<open>catch\<close> block, which
  only a thrown exception reaches, has no branch here.
\<close>

definition markAttendance ::
  "backend option \<Rightarrow> qr_payload \<Rightarrow> js_date \<Rightarrow>
     (string + attendance_record \<times> string) \<times> backend option" where
  "markAttendance supabase attendanceData scanTime =
     (case supabase of
        None \<Rightarrow> (Inl ''Supabase is not configured. Please set environment variables.'', None)
      | Some db \<Rightarrow>
          (let today = isoDate scanTime in
           case approvedLeave db (employeeId attendanceData) today of
             Some leaveRequest \<Rightarrow>
               (Inl (''You are on '' @
                     (if leave_type leaveRequest = ''full_day'' then ''full day'' else ''half day'') @
                     '' leave today''),
                Some db)
           | None \<Rightarrow>
               (let detected = detectScanType supabase (employeeId attendanceData) scanTime in
                case existingScan db (employeeId attendanceData) today (scanType detected) of
                  Some existing \<Rightarrow>
                    (Inl (replace_first (CHR ''_'') (CHR '' '') (scanType detected) @
                          '' already recorded for today''),
                     Some db)
                | None \<Rightarrow>
                    (let isHalfDay' = (scanType detected = ''check_in'' \<and> getHours scanTime < 12) in
                     case insert_attendance db
                            \<lparr>employee_id = employeeId attendanceData,
                             employee_name = firstName attendanceData @ '' '' @ lastName attendanceData,
                             employee_role = role attendanceData,
                             record_department = department_or_null (department attendanceData),
                             check_in_time = checkInTime attendanceData,
                             scanned_at = getTime scanTime,
                             scanned_date = today,
                             scan_type = scanType detected,
                             is_late = isLate detected,
                             is_early_departure = isEarly detected,
                             is_half_day = isHalfDay',
                             signature_verified = True,
                             qr_data = attendanceData\<rparr> of
                       Inl message \<Rightarrow>
                         (Inl (if message = [] then ''Failed to mark attendance'' else message),
                          Some db)
                     | Inr (data, db') \<Rightarrow> (Inr (data, scanType detected), Some db')))))"

section \<open>Daily summary\<close>

text \<open>
  JavaScript numbers are IEEE 754 doubles, and every arithmetic operation of the source rounds
  its exact result to the nearest double, to the even significand at a tie. A finite double is
  a rational, so the model keeps doubles as rationals and rounds after each operation with
  \<open>to_double\<close>: the significand is the rational scaled into \<open>[2^52, 2^53)\<close> by the power of
  two \<open>pow2 e\<close> and rounded half-to-even to an integer. The exponent is not bounded; the
  quantities below (differences of time values, their quotients by 60000 and 60, and multiples
  of 1/100) stay far inside the range of normal doubles, where this is the rounding of the
  standard.
\<close>

definition pow2 :: "int \<Rightarrow> rat" where
  "pow2 e = (if 0 \<le> e then 2 ^ nat e else 1 / 2 ^ nat (- e))"

text \<open>For \<open>x > 0\<close>, the integer \<open>e\<close> with \<open>2^e \<le> x < 2^(e+1)\<close>.\<close>

definition ilog2 :: "rat \<Rightarrow> int" where
  "ilog2 x = (if 1 \<le> x then bitlen \<lfloor>x\<rfloor> - 1 else - bitlen (\<lceil>1 / x\<rceil> - 1))"

definition round_half_even :: "rat \<Rightarrow> int" where
  "round_half_even x =
     (let n = \<lfloor>x\<rfloor>; r = x - of_int n
      in if r < 1 / 2 then n else if 1 / 2 < r then n + 1 else if even n then n else n + 1)"

definition to_double :: "rat \<Rightarrow> rat" where
  "to_double x =
     (if x = 0 then 0
      else (let e = ilog2 \<bar>x\<bar> - 52
            in sgn x * of_int (round_half_even (\<bar>x\<bar> / pow2 e)) * pow2 e))"

text \<open>
  \<^verbatim>\<open>x.toFixed(2)\<close> writes the multiple of \<open>1/100\<close> nearest to the exact value of the
  double \<open>x\<close>, the larger one in magnitude at a tie, with the sign of \<open>x\<close>;
  \<^verbatim>\<open>parseFloat\<close> reads that decimal back as the nearest double.
  \<^verbatim>\<open>Math.round(x)\<close> is the integer nearest to the exact value of \<open>x\<close>, the upper one
  at a tie.
\<close>

definition toFixed2 :: "rat \<Rightarrow> rat" where
  "toFixed2 x =
     (if x < 0 then - (of_int \<lfloor>- x * 100 + 1 / 2\<rfloor> / 100) else of_int \<lfloor>x * 100 + 1 / 2\<rfloor> / 100)"

definition parseFloat_toFixed2 :: "rat \<Rightarrow> rat" where
  "parseFloat_toFixed2 x = to_double (toFixed2 x)"

definition Math_round :: "rat \<Rightarrow> int" where
  "Math_round x = \<lfloor>x + 1 / 2\<rfloor>"

text \<open>
  \<^verbatim>\<open>(new Date(b.scanned_at) - new Date(a.scanned_at)) / (1000 * 60)\<close>: the time values
  are subtracted as doubles, and the difference is divided by 60000 as a double.
\<close>

definition minutesBetween :: "attendance_record \<Rightarrow> attendance_record \<Rightarrow> rat" where
  "minutesBetween a b =
     to_double (to_double (of_int (scanned_at b - scanned_at a)) / (1000 * 60))"

text \<open>
  The block that computes \<^verbatim>\<open>totalHours\<close> and \<^verbatim>\<open>lunchDuration\<close>; both start as
  \<^verbatim>\<open>null\<close>.
\<close>

definition workingHours ::
  "attendance_record option \<Rightarrow> attendance_record option \<Rightarrow> attendance_record option \<Rightarrow>
     attendance_record option \<Rightarrow> rat option \<times> rat option" where
  "workingHours checkIn' lunchOut' lunchIn' checkOut' =
     (case checkIn' of
        None \<Rightarrow> (None, None)
      | Some ci \<Rightarrow>
          (case checkOut' of
             None \<Rightarrow> (None, None)
           | Some co \<Rightarrow>
               (let totalMinutes = minutesBetween ci co in
                case lunchOut' of
                  None \<Rightarrow> (Some (to_double (totalMinutes / 60)), None)
                | Some lo \<Rightarrow>
                    (case lunchIn' of
                       None \<Rightarrow> (Some (to_double (totalMinutes / 60)), None)
                     | Some li \<Rightarrow>
                         (let lunchDuration' = minutesBetween lo li
                          in (Some (to_double (to_double (totalMinutes - lunchDuration') / 60)),
                              Some lunchDuration'))))))"

text \<open>
  \<^verbatim>\<open>x ? f(x) : null\<close> on a number or \<^verbatim>\<open>null\<close>: zero is falsy, like
  \<^verbatim>\<open>null\<close>.
\<close>

definition truthy_then :: "(rat \<Rightarrow> 'a) \<Rightarrow> rat option \<Rightarrow> 'a option" where
  "truthy_then f x = (case x of None \<Rightarrow> None | Some v \<Rightarrow> if v = 0 then None else Some (f v))"

text \<open>\<^verbatim>\<open>r?.flag || false\<close>\<close>

definition flag_or_false :: "('r \<Rightarrow> bool) \<Rightarrow> 'r option \<Rightarrow> bool" where
  "flag_or_false f r = (case r of None \<Rightarrow> False | Some x \<Rightarrow> f x)"

record daily_summary =
  date :: string
  checkIn :: "attendance_record option"
  lunchOut :: "attendance_record option"
  lunchIn :: "attendance_record option"
  checkOut :: "attendance_record option"
  totalHours :: "rat option"
  lunchDuration :: "int option"
  isComplete :: bool
  isHalfDay :: bool
  isLate_day :: bool
  isEarlyDeparture :: bool
  leave :: "leave_request option"

text \<open>
  \<^verbatim>\<open>getDailySummary\<close>: \<open>Inl error\<close> for \<^verbatim>\<open>{success: false, error}\<close>,
  \<open>Inr data\<close> for \<^verbatim>\<open>{success: true, data}\<close>. \<^verbatim>\<open>scans.find(p)\<close> is the first
  row, in the order of the query, that satisfies \<open>p\<close>.
\<close>

definition getDailySummary :: "backend option \<Rightarrow> string \<Rightarrow> js_date \<Rightarrow> string + daily_summary" where
  "getDailySummary supabase employeeId' date' =
     (case supabase of
        None \<Rightarrow> Inl ''Supabase not configured''
      | Some db \<Rightarrow>
          (let dateStr = isoDate date';
               scans = scansOn db employeeId' dateStr;
               checkIn' = find (\<lambda>s. scan_type s = ''check_in'') scans;
               lunchOut' = find (\<lambda>s. scan_type s = ''lunch_out'') scans;
               lunchIn' = find (\<lambda>s. scan_type s = ''lunch_in'') scans;
               checkOut' = find (\<lambda>s. scan_type s = ''check_out'') scans;
               hours = workingHours checkIn' lunchOut' lunchIn' checkOut'
           in Inr \<lparr>date = dateStr,
                   checkIn = checkIn',
                   lunchOut = lunchOut',
                   lunchIn = lunchIn',
                   checkOut = checkOut',
                   totalHours = truthy_then parseFloat_toFixed2 (fst hours),
                   lunchDuration = truthy_then Math_round (snd hours),
                   isComplete = (checkIn' \<noteq> None \<and> checkOut' \<noteq> None),
                   isHalfDay = flag_or_false is_half_day checkIn',
                   isLate_day = flag_or_false is_late checkIn',
                   isEarlyDeparture = flag_or_false is_early_departure checkOut',
                   leave = approvedLeave db employeeId' dateStr\<rparr>))"

section \<open>The decision table and the table constraints, as specified\<close>

text \<open>
  The guards of rules 1 to 4 of the classifier's decision table, in the specification's words,
  over the set of scan types already recorded today and the minutes from midnight:
  no check-in yet; check-in exists, no lunch-out, and now at or after 12:00; lunch-out exists,
  no lunch-in; lunch-in exists, no check-out.
\<close>

definition rule1 :: "string set \<Rightarrow> nat \<Rightarrow> bool" where
  "rule1 S m = (''check_in'' \<notin> S)"

definition rule2 :: "string set \<Rightarrow> nat \<Rightarrow> bool" where
  "rule2 S m = (''check_in'' \<in> S \<and> ''lunch_out'' \<notin> S \<and> m \<ge> 12 * 60)"

definition rule3 :: "string set \<Rightarrow> nat \<Rightarrow> bool" where
  "rule3 S m = (''lunch_out'' \<in> S \<and> ''lunch_in'' \<notin> S)"

definition rule4 :: "string set \<Rightarrow> nat \<Rightarrow> bool" where
  "rule4 S m = (''lunch_in'' \<in> S \<and> ''check_out'' \<notin> S)"

text \<open>
  The selection of the daily summary, in the specification's words: at most one row of the
  scan type for the employee and the date. \<open>selected_of_type db e d st sel\<close> says that
  \<open>sel\<close> is nothing when the table has no row of employee \<open>e\<close>, date \<open>d\<close> and scan type
  \<open>st\<close>, and otherwise is such a row, one whose \<open>scanned_at\<close> no other such row precedes.
\<close>

definition selected_of_type ::
  "backend \<Rightarrow> string \<Rightarrow> string \<Rightarrow> string \<Rightarrow> attendance_record option \<Rightarrow> bool" where
  "selected_of_type db e d st sel =
     (case sel of
        None \<Rightarrow>
          (\<forall>r \<in> set (attendance_records db).
             \<not> (employee_id r = e \<and> scanned_date r = d \<and> scan_type r = st))
      | Some r \<Rightarrow>
          r \<in> set (attendance_records db) \<and>
          employee_id r = e \<and> scanned_date r = d \<and> scan_type r = st \<and>
          (\<forall>r' \<in> set (attendance_records db).
             employee_id r' = e \<and> scanned_date r' = d \<and> scan_type r' = st \<longrightarrow>
             scanned_at r \<le> scanned_at r'))"

text \<open>
  The time values of JavaScript dates are integers of magnitude at most \<open>8.64 * 10^15\<close>
  (a \<^verbatim>\<open>Date\<close> outside that range is invalid).
\<close>

definition valid_time_values :: "backend \<Rightarrow> bool" where
  "valid_time_values db =
     (\<forall>r \<in> set (attendance_records db). \<bar>scanned_at r\<bar> \<le> 8640000000000000)"

text \<open>
  \<^verbatim>\<open>UNIQUE(employee_id, leave_date)\<close> of the table \<^verbatim>\<open>leave_requests\<close>.
\<close>

definition leave_unique :: "backend \<Rightarrow> bool" where
  "leave_unique db = distinct (map (\<lambda>l. (leave_employee_id l, leave_date l)) (leave_requests db))"

text \<open>
  At most one attendance row per employee, date and scan type. No constraint of the schema
  enforces it; the check in \<open>markAttendance\<close> is what keeps it.
\<close>

definition scans_unique :: "backend \<Rightarrow> bool" where
  "scans_unique db =
     distinct (map (\<lambda>r. (employee_id r, scanned_date r, scan_type r)) (attendance_records db))"

section \<open>Example data\<close>

text \<open>
  One employee on 15 January 2025, in a browser whose local time is UTC. \<open>example_time h m hhmm\<close>
  is the \<^verbatim>\<open>Date\<close> of that day at \<open>h:m\<close>, with \<open>hhmm\<close> the same time as text.
\<close>

definition example_time :: "nat \<Rightarrow> nat \<Rightarrow> string \<Rightarrow> js_date" where
  "example_time h m hhmm =
     \<lparr>getTime = 1736899200000 + (int h * 60 + int m) * 60000,
      toISOString = ''2025-01-15T'' @ hhmm @ '':00.000Z'',
      getHours = h, getMinutes = m\<rparr>"

definition example_payload :: qr_payload where
  "example_payload =
     \<lparr>employeeId = ''emp-1'', firstName = ''Asha'', lastName = ''Rao'', role = ''engineer'',
      department = Some ''Research'', checkInTime = ''2025-01-15T09:00:00.000Z'',
      signature = ''00ff''\<rparr>"

definition example_scan :: "string \<Rightarrow> nat \<Rightarrow> nat \<Rightarrow> attendance_record" where
  "example_scan st h m =
     \<lparr>employee_id = ''emp-1'', employee_name = ''Asha Rao'', employee_role = ''engineer'',
      record_department = Some ''Research'', check_in_time = ''2025-01-15T09:00:00.000Z'',
      scanned_at = 1736899200000 + (int h * 60 + int m) * 60000,
      scanned_date = ''2025-01-15'', scan_type = st,
      is_late = False, is_early_departure = False, is_half_day = False,
      signature_verified = True, qr_data = example_payload\<rparr>"

definition example_leave :: "string \<Rightarrow> leave_request" where
  "example_leave ty =
     \<lparr>leave_employee_id = ''emp-1'', leave_date = ''2025-01-15'', leave_type = ty,
      reason = ''family'', status = ''approved''\<rparr>"

definition example_backend :: "attendance_record list \<Rightarrow> leave_request list \<Rightarrow> backend" where
  "example_backend rs ls = \<lparr>attendance_records = rs, leave_requests = ls, employees = [''emp-1'']\<rparr>"

definition full_day_scans :: "attendance_record list" where
  "full_day_scans =
     [example_scan ''check_in'' 9 0, example_scan ''lunch_out'' 12 0,
      example_scan ''lunch_in'' 13 0, example_scan ''check_out'' 18 0]"

definition overtime_scans :: "attendance_record list" where
  "overtime_scans =
     [example_scan ''check_in'' 9 0, example_scan ''lunch_out'' 12 0,
      example_scan ''lunch_in'' 13 0, example_scan ''check_out'' 18 10]"

text \<open>Check-in at 09:00:00 and check-out at 10:00:18, with no lunch.\<close>

definition short_day_scans :: "attendance_record list" where
  "short_day_scans =
     [example_scan ''check_in'' 9 0,
      (example_scan ''check_out'' 10 0)\<lparr>scanned_at := 1736935218000\<rparr>]"

definition full_day_summary :: daily_summary where
  "full_day_summary =
     \<lparr>date = ''2025-01-15'',
      checkIn = Some (example_scan ''check_in'' 9 0),
      lunchOut = Some (example_scan ''lunch_out'' 12 0),
      lunchIn = Some (example_scan ''lunch_in'' 13 0),
      checkOut = Some (example_scan ''check_out'' 18 0),
      totalHours = Some 8, lunchDuration = Some 60, isComplete = True,
      isHalfDay = False, isLate_day = False, isEarlyDeparture = False, leave = None\<rparr>"

text \<open>
  A \<^verbatim>\<open>new Date(string)\<close> that knows the payload's timestamp, 09:00:00 UTC of the
  example day, and takes every other string for an Invalid Date.
\<close>

definition example_parseDate :: "string \<Rightarrow> int option" where
  "example_parseDate s =
     (if s = ''2025-01-15T09:00:00.000Z'' then Some 1736931600000 else None)"

section \<open>Auxiliary facts\<close>

lemmas example_defs = example_backend_def example_scan_def example_time_def example_payload_def
  example_leave_def full_day_scans_def overtime_scans_def short_day_scans_def

lemmas threshold_defs = LUNCH_START_def EXPECTED_CHECK_IN_def EXPECTED_CHECK_OUT_def
  LATE_THRESHOLD_def

lemmas rule_defs = rule1_def rule2_def rule3_def rule4_def

lemma department_or_empty_eq:
  "department_or_empty d = (case d of None \<Rightarrow> [] | Some s \<Rightarrow> s)"
  by (simp add: department_or_empty_def split: option.split)

text \<open>A filter that selects by a key which is unique in the list returns the one row.\<close>

lemma filter_unique_key:
  assumes "distinct (map f xs)" "x \<in> set xs" "P x" "\<And>y. y \<in> set xs \<Longrightarrow> P y \<Longrightarrow> f y = f x"
  shows "filter P xs = [x]"
  using assms
proof (induction xs)
  case Nil
  then show ?case by simp
next
  case (Cons a xs)
  from Cons.prems(1) have fresh: "f a \<notin> f ` set xs" and dist: "distinct (map f xs)"
    by simp_all
  show ?case
  proof (cases "a = x")
    case True
    have "\<not> P y" if "y \<in> set xs" for y
    proof
      assume "P y"
      with that Cons.prems(4) have "f y = f a" using True by simp
      moreover from that have "f y \<in> f ` set xs" by (rule imageI)
      ultimately show False using fresh by simp
    qed
    then have "filter P xs = []" by (simp add: filter_empty_conv)
    with True Cons.prems(3) show ?thesis by simp
  next
    case False
    with Cons.prems(2) have xin: "x \<in> set xs" by simp
    then have "f x \<in> f ` set xs" by (rule imageI)
    have "\<not> P a"
    proof
      assume "P a"
      with Cons.prems(4) have "f a = f x" by simp
      with \<open>f x \<in> f ` set xs\<close> fresh show False by simp
    qed
    moreover have "filter P xs = [x]"
      using Cons.IH[OF dist xin Cons.prems(3)] Cons.prems(4) by simp
    ultimately show ?thesis by simp
  qed
qed

lemma approvedLeave_Some:
  assumes "leave_unique db" "l \<in> set (leave_requests db)" "leave_employee_id l = e"
    "leave_date l = d" "status l = ''approved''"
  shows "approvedLeave db e d = Some l"
proof -
  have "filter (\<lambda>l. leave_employee_id l = e \<and> leave_date l = d \<and> status l = ''approved'')
          (leave_requests db) = [l]"
    using assms
    by (intro filter_unique_key[where f = "\<lambda>l. (leave_employee_id l, leave_date l)"])
       (auto simp: leave_unique_def)
  then show ?thesis by (simp add: approvedLeave_def single_def)
qed

lemma approvedLeave_None:
  assumes "\<forall>l \<in> set (leave_requests db).
             \<not> (leave_employee_id l = e \<and> leave_date l = d \<and> status l = ''approved'')"
  shows "approvedLeave db e d = None"
proof -
  have "filter (\<lambda>l. leave_employee_id l = e \<and> leave_date l = d \<and> status l = ''approved'')
          (leave_requests db) = []"
    using assms by (simp add: filter_empty_conv)
  then show ?thesis by (simp add: approvedLeave_def single_def)
qed

lemma insert_attendance_Inr:
  "insert_attendance db r = Inr (row, db') \<Longrightarrow>
     row = r \<and> db' = db\<lparr>attendance_records := attendance_records db @ [r]\<rparr>"
  by (auto simp add: insert_attendance_def split: if_splits)

text \<open>
  The check before the insert keeps the table free of two rows for one employee, date and scan
  type, and a call never changes or removes a stored row.
\<close>

lemma filter_key_empty_or_single:
  assumes "distinct (map f xs)"
  shows "filter (\<lambda>x. f x = k) xs = [] \<or> (\<exists>x. filter (\<lambda>x. f x = k) xs = [x])"
proof (cases "\<exists>x \<in> set xs. f x = k")
  case True
  then obtain x where "x \<in> set xs" "f x = k" by blast
  then have "filter (\<lambda>x. f x = k) xs = [x]"
    using assms by (intro filter_unique_key[where f = f]) simp_all
  then show ?thesis by blast
next
  case False
  then show ?thesis by (simp add: filter_empty_conv)
qed

lemma single_None_no_key:
  assumes "distinct (map f xs)" "single (filter (\<lambda>x. f x = k) xs) = None"
  shows "k \<notin> f ` set xs"
proof -
  from filter_key_empty_or_single[OF assms(1), of k] assms(2)
  have "filter (\<lambda>x. f x = k) xs = []" by (auto simp: single_def)
  then show ?thesis by (auto simp: filter_empty_conv)
qed

lemma existingScan_None_fresh:
  assumes "scans_unique db" "existingScan db e d st = None"
  shows "(e, d, st) \<notin> (\<lambda>r. (employee_id r, scanned_date r, scan_type r)) ` set (attendance_records db)"
proof -
  have "scansOfType db e d st =
          filter (\<lambda>r. (employee_id r, scanned_date r, scan_type r) = (e, d, st)) (attendance_records db)"
    by (simp add: scansOfType_def)
  with assms show ?thesis
    using single_None_no_key[of "\<lambda>r. (employee_id r, scanned_date r, scan_type r)"
                                "attendance_records db" "(e, d, st)"]
    by (simp add: existingScan_def scans_unique_def)
qed

lemma markAttendance_keeps_scans_unique:
  assumes "scans_unique db" "markAttendance (Some db) p t = (res, Some db')"
  shows "scans_unique db'"
proof (cases "approvedLeave db (employeeId p) (isoDate t)")
  case (Some l)
  with assms show ?thesis by (simp add: markAttendance_def Let_def)
next
  case None
  note noLeave = this
  let ?st = "scanType (detectScanType (Some db) (employeeId p) t)"
  show ?thesis
  proof (cases "existingScan db (employeeId p) (isoDate t) ?st")
    case (Some x)
    with assms noLeave show ?thesis by (simp add: markAttendance_def Let_def)
  next
    case None
    from existingScan_None_fresh[OF assms(1) None]
    have fresh: "(employeeId p, isoDate t, ?st) \<notin>
            (\<lambda>r. (employee_id r, scanned_date r, scan_type r)) ` set (attendance_records db)" .
    from assms(2) noLeave None show ?thesis
      using assms(1) fresh
      by (auto simp add: markAttendance_def Let_def insert_attendance_def scans_unique_def
          split: if_splits)
  qed
qed

lemma markAttendance_appends:
  assumes "markAttendance (Some db) p t = (res, Some db')"
  shows "\<exists>rows. attendance_records db' = attendance_records db @ rows"
  using assms
  by (auto simp add: markAttendance_def Let_def insert_attendance_def
      split: option.splits if_splits)

text \<open>
  The rounding \<open>to_double\<close> is the rounding to 53 significant bits: \<open>ilog2\<close> is the binary
  exponent, the rounded significand lies between \<open>2^52\<close> and \<open>2^53\<close>, and the result is
  within half a unit in the last place of the argument.
\<close>

lemma pow2_pos: "0 < pow2 e"
  by (simp add: pow2_def)

lemma pow2_nonpos: "e \<le> 0 \<Longrightarrow> pow2 e = 1 / 2 ^ nat (- e)"
  by (cases "e = 0") (simp_all add: pow2_def)

lemma pow2_Suc: "pow2 (e + 1) = 2 * pow2 e"
proof (cases "0 \<le> e")
  case True
  then show ?thesis by (simp add: pow2_def nat_add_distrib)
next
  case False
  then have eq: "nat (- e) = Suc (nat (- e - 1))" by linarith
  have "pow2 e = 1 / 2 ^ Suc (nat (- e - 1))"
    using pow2_nonpos[of e] False eq by simp
  moreover have "pow2 (e + 1) = 1 / 2 ^ nat (- e - 1)"
    using pow2_nonpos[of "e + 1"] False by simp
  ultimately show ?thesis by simp
qed

lemma ilog2_bounds:
  assumes "0 < x"
  shows "pow2 (ilog2 x) \<le> x \<and> x < pow2 (ilog2 x + 1)"
proof (cases "1 \<le> x")
  case True
  define n where "n = \<lfloor>x\<rfloor>"
  have n: "0 < n" "of_int n \<le> x" "x < of_int (n + 1)"
    using True by (simp_all add: n_def) linarith+
  from bitlen_bounds[OF n(1)]
  have b: "2 ^ nat (bitlen n - 1) \<le> n" "n + 1 \<le> 2 ^ nat (bitlen n)" by simp_all
  have pos: "1 \<le> bitlen n"
    using n(1) bitlen_eq_zero_iff[of n] bitlen_nonneg[of n] by linarith
  have il: "ilog2 x = bitlen n - 1" using True by (simp add: ilog2_def n_def)
  have "pow2 (bitlen n - 1) = of_int (2 ^ nat (bitlen n - 1))"
    using pos by (simp add: pow2_def)
  also have "\<dots> \<le> of_int n" using b(1) by (simp only: of_int_le_iff)
  finally have lower: "pow2 (bitlen n - 1) \<le> x" using n(2) by linarith
  have "of_int (n + 1) \<le> (of_int (2 ^ nat (bitlen n)) :: rat)"
    using b(2) by (simp only: of_int_le_iff)
  also have "\<dots> = pow2 (bitlen n)" using pos by (simp add: pow2_def)
  finally have upper: "x < pow2 (bitlen n)" using n(3) by linarith
  from lower upper il show ?thesis by simp
next
  case False
  define m where "m = \<lceil>1 / x\<rceil> - 1"
  have y: "1 < 1 / x" using assms False by simp
  have m: "0 < m" "of_int m < 1 / x" "1 / x \<le> of_int (m + 1)"
    using y by (simp_all add: m_def) linarith+
  from bitlen_bounds[OF m(1)]
  have b: "2 ^ nat (bitlen m - 1) \<le> m" "m + 1 \<le> 2 ^ nat (bitlen m)" by simp_all
  have pos: "1 \<le> bitlen m"
    using m(1) bitlen_eq_zero_iff[of m] bitlen_nonneg[of m] by linarith
  have il: "ilog2 x = - bitlen m" using False by (simp add: ilog2_def m_def)
  have "1 / x \<le> (of_int (2 ^ nat (bitlen m)) :: rat)"
  proof -
    have "(of_int (m + 1) :: rat) \<le> of_int (2 ^ nat (bitlen m))"
      using b(2) by (simp only: of_int_le_iff)
    with m(3) show ?thesis by linarith
  qed
  then have "1 / x \<le> 2 ^ nat (bitlen m)" by simp
  then have "1 / 2 ^ nat (bitlen m) \<le> x"
    using assms by (simp add: field_simps)
  then have lower: "pow2 (- bitlen m) \<le> x"
    using pos by (simp add: pow2_nonpos)
  have "(of_int (2 ^ nat (bitlen m - 1)) :: rat) \<le> of_int m"
    using b(1) by (simp only: of_int_le_iff)
  moreover have "(of_int (2 ^ nat (bitlen m - 1)) :: rat) = 2 ^ nat (bitlen m - 1)" by simp
  ultimately have "(2 :: rat) ^ nat (bitlen m - 1) \<le> of_int m" by (simp only:)
  with m(2) have "2 ^ nat (bitlen m - 1) < 1 / x" by linarith
  then have below: "x < 1 / 2 ^ nat (bitlen m - 1)"
    using assms by (simp add: field_simps)
  have "pow2 (- bitlen m + 1) = 1 / 2 ^ nat (bitlen m - 1)"
    using pos pow2_nonpos[of "- bitlen m + 1"] by simp
  with below have upper: "x < pow2 (- bitlen m + 1)" by simp
  from lower upper il show ?thesis by simp
qed

lemma round_half_even_error: "\<bar>of_int (round_half_even y) - y\<bar> \<le> 1 / 2"
proof -
  have "of_int \<lfloor>y\<rfloor> \<le> y" "y < of_int \<lfloor>y\<rfloor> + 1" by linarith+
  then show ?thesis
    by (auto simp add: round_half_even_def Let_def)
qed

lemma to_double_error:
  assumes "x \<noteq> 0"
  shows "\<bar>to_double x - x\<bar> \<le> pow2 (ilog2 \<bar>x\<bar> - 52) / 2"
proof -
  define e where "e = ilog2 \<bar>x\<bar> - 52"
  define m where "m = round_half_even (\<bar>x\<bar> / pow2 e)"
  have p: "0 < pow2 e" by (rule pow2_pos)
  have td: "to_double x = sgn x * of_int m * pow2 e"
    using assms by (simp add: to_double_def Let_def e_def m_def)
  have "x = sgn x * (\<bar>x\<bar> / pow2 e) * pow2 e"
    using p by (simp add: sgn_mult_abs)
  then have "to_double x - x = sgn x * (of_int m - \<bar>x\<bar> / pow2 e) * pow2 e"
    unfolding td by (simp add: algebra_simps)
  then have "\<bar>to_double x - x\<bar> = \<bar>of_int m - \<bar>x\<bar> / pow2 e\<bar> * pow2 e"
    using assms p by (simp add: abs_mult abs_sgn_eq)
  also have "\<dots> \<le> 1 / 2 * pow2 e"
    using round_half_even_error[of "\<bar>x\<bar> / pow2 e"] p
    unfolding m_def by (intro mult_right_mono) simp_all
  finally show ?thesis by (simp add: e_def)
qed


lemma pow2_add_nat: "pow2 (a + int n) = pow2 a * 2 ^ n"
proof (induction n)
  case 0
  then show ?case by simp
next
  case (Suc n)
  have "a + int (Suc n) = (a + int n) + 1" by simp
  then have "pow2 (a + int (Suc n)) = 2 * pow2 (a + int n)"
    by (simp only: pow2_Suc)
  with Suc show ?case by simp
qed

lemma round_half_even_range:
  "\<lfloor>y\<rfloor> \<le> round_half_even y \<and> round_half_even y \<le> \<lfloor>y\<rfloor> + 1"
  by (simp add: round_half_even_def Let_def)

lemma to_double_significand:
  assumes "x \<noteq> 0"
  shows "2 ^ 52 \<le> round_half_even (\<bar>x\<bar> / pow2 (ilog2 \<bar>x\<bar> - 52)) \<and>
         round_half_even (\<bar>x\<bar> / pow2 (ilog2 \<bar>x\<bar> - 52)) \<le> 2 ^ 53"
proof -
  define k where "k = ilog2 \<bar>x\<bar>"
  define y where "y = \<bar>x\<bar> / pow2 (k - 52)"
  have p: "0 < pow2 (k - 52)" by (rule pow2_pos)
  from ilog2_bounds[of "\<bar>x\<bar>"] assms
  have b: "pow2 k \<le> \<bar>x\<bar>" "\<bar>x\<bar> < pow2 (k + 1)" by (simp_all add: k_def)
  have "k = (k - 52) + int 52" by simp
  then have k52: "pow2 k = pow2 (k - 52) * 2 ^ 52"
    using pow2_add_nat[of "k - 52" 52] by (simp only:)
  have "k + 1 = (k - 52) + int 53" by simp
  then have k53: "pow2 (k + 1) = pow2 (k - 52) * 2 ^ 53"
    using pow2_add_nat[of "k - 52" 53] by (simp only:)
  have lo: "2 ^ 52 \<le> y"
    using b(1) p unfolding k52 y_def by (simp add: field_simps)
  have hi: "y < 2 ^ 53"
    using b(2) p unfolding k53 y_def by (simp add: field_simps)
  have "(2 ^ 52 :: int) \<le> \<lfloor>y\<rfloor>" using lo by (simp add: le_floor_iff)
  moreover have "\<lfloor>y\<rfloor> < (2 ^ 53 :: int)" using hi by (simp add: floor_less_iff)
  ultimately show ?thesis
    using round_half_even_range[of y] unfolding y_def k_def by linarith
qed

text \<open>
  What the daily summary selects and reports for a configured backend: the selected row of a
  scan type is an earliest one, and the reported hours are those of the source's arithmetic.
\<close>

lemma find_sort_key_least:
  assumes "find P (sort_key f xs) = Some r"
  shows "r \<in> set xs \<and> P r \<and> (\<forall>r' \<in> set xs. P r' \<longrightarrow> f r \<le> f r')"
proof -
  let ?ys = "sort_key f xs"
  from assms obtain i where i: "i < length ?ys" "P (?ys ! i)" "r = ?ys ! i"
    and before: "\<forall>j < i. \<not> P (?ys ! j)"
    by (auto simp: find_Some_iff)
  have sorted: "sorted (map f ?ys)" by simp
  have "f r \<le> f r'" if "r' \<in> set xs" "P r'" for r'
  proof -
    from that(1) have "r' \<in> set ?ys" by simp
    then obtain j where j: "j < length ?ys" "?ys ! j = r'"
      unfolding in_set_conv_nth by blast
    with that(2) before have "i \<le> j" by (metis not_le_imp_less)
    with sorted j(1) have "map f ?ys ! i \<le> map f ?ys ! j"
      by (simp add: sorted_iff_nth_mono)
    with i j show ?thesis by simp
  qed
  moreover from i have "r \<in> set xs" using nth_mem[of i ?ys] by simp
  ultimately show ?thesis using i by blast
qed

lemma find_scansOn_selected:
  "selected_of_type db e d st (find (\<lambda>s. scan_type s = st) (scansOn db e d))"
proof (cases "find (\<lambda>s. scan_type s = st) (scansOn db e d)")
  case None
  then have "\<forall>x \<in> set (scansOn db e d). scan_type x \<noteq> st"
    by (simp add: find_None_iff)
  then show ?thesis
    unfolding selected_of_type_def None by (auto simp: scansOn_def)
next
  case (Some r)
  from find_sort_key_least[OF Some[unfolded scansOn_def]]
  show ?thesis
    unfolding selected_of_type_def Some by auto
qed

lemma getDailySummary_selection:
  assumes "getDailySummary (Some db) e d = Inr s"
  shows "selected_of_type db e (isoDate d) ''check_in'' (checkIn s) \<and>
         selected_of_type db e (isoDate d) ''lunch_out'' (lunchOut s) \<and>
         selected_of_type db e (isoDate d) ''lunch_in'' (lunchIn s) \<and>
         selected_of_type db e (isoDate d) ''check_out'' (checkOut s)"
  using assms find_scansOn_selected[of db e "isoDate d"]
  by (auto simp add: getDailySummary_def Let_def)

lemma getDailySummary_hours:
  assumes "getDailySummary (Some db) e d = Inr s"
  shows
   "isComplete s = (checkIn s \<noteq> None \<and> checkOut s \<noteq> None) \<and>
    (checkIn s = Some ci \<and> checkOut s = Some co \<longrightarrow>
       (let lunch = (case (lunchOut s, lunchIn s) of
                       (Some lo, Some li) \<Rightarrow> Some (minutesBetween lo li) | _ \<Rightarrow> None);
            hours = (case lunch of
                       Some l \<Rightarrow> to_double (to_double (minutesBetween ci co - l) / 60)
                     | None \<Rightarrow> to_double (minutesBetween ci co / 60))
        in (hours \<noteq> 0 \<longrightarrow> totalHours s = Some (parseFloat_toFixed2 hours)) \<and>
           (\<forall>l. lunch = Some l \<and> l \<noteq> 0 \<longrightarrow> lunchDuration s = Some (Math_round l))))"
  using assms
  by (auto simp add: getDailySummary_def Let_def workingHours_def truthy_then_def
      split: option.splits)

text \<open>
  The day 09:00, 12:00, 13:00, 18:00, and the short day 09:00:00 to 10:00:18, whose quotient
  in doubles lies just below 1.005 and is reported as 1.
\<close>

lemma full_day_summary_eval:
  "getDailySummary (Some (example_backend full_day_scans [])) ''emp-1''
     (example_time 20 0 ''20:00'') = Inr full_day_summary"
  by code_simp

lemma getDailySummary_tie_example:
  "map_sum id totalHours
     (getDailySummary (Some (example_backend short_day_scans [])) ''emp-1''
        (example_time 20 0 ''20:00'')) = Inr (Some 1)"
  by code_simp

section \<open>Signature and freshness\<close>

text \<open>
  C1. \<open>verifyQrSignature\<close> accepts a payload exactly when the hexadecimal HMAC-SHA256 digest,
  under the secret key, of the six fields joined with pipes (the department replaced by the
  empty string when absent) is the same character sequence as the payload's signature.
\<close>

theorem verifyQrSignature_iff_digest_equal:
  "verifyQrSignature hmacHex env q =
     (hmacHex (spec_signed_string q) (SECRET_KEY env) = signature q)"
  by (simp add: verifyQrSignature_def dataToSign_def spec_signed_string_def
      department_or_empty_eq)

text \<open>
  C2. \<open>isTimestampFresh\<close> is true exactly when the timestamp parses and the age
  \<open>now - checkInTime\<close> lies between 0 and 60 seconds inclusive (0 and 60000 milliseconds);
  an age of -1 second and an age of 61 seconds are both rejected.
\<close>

theorem isTimestampFresh_iff_age_within_60s:
  "(isTimestampFresh parseDate now s \<longleftrightarrow>
      (\<exists>t. parseDate s = Some t \<and> 0 \<le> now - t \<and> now - t \<le> 60 * 1000)) \<and>
   (parseDate s = Some (now + 1000) \<longrightarrow> \<not> isTimestampFresh parseDate now s) \<and>
   (parseDate s = Some (now - 61 * 1000) \<longrightarrow> \<not> isTimestampFresh parseDate now s)"
  by (auto simp: isTimestampFresh_def Let_def split: option.splits)

text \<open>
  The payload stamped 09:00:00 is fresh 30 seconds later, and is rejected one second before
  its own timestamp and 61 seconds after it.
\<close>

theorem isTimestampFresh_witness:
  "isTimestampFresh example_parseDate 1736931630000 ''2025-01-15T09:00:00.000Z'' \<and>
   \<not> isTimestampFresh example_parseDate 1736931599000 ''2025-01-15T09:00:00.000Z'' \<and>
   \<not> isTimestampFresh example_parseDate 1736931661000 ''2025-01-15T09:00:00.000Z''"
  using isTimestampFresh_iff_age_within_60s
          [of example_parseDate 1736931630000 "''2025-01-15T09:00:00.000Z''"]
        isTimestampFresh_iff_age_within_60s
          [of example_parseDate 1736931599000 "''2025-01-15T09:00:00.000Z''"]
        isTimestampFresh_iff_age_within_60s
          [of example_parseDate 1736931661000 "''2025-01-15T09:00:00.000Z''"]
  by (simp add: example_parseDate_def)

section \<open>The scan classifier\<close>

text \<open>
  C3. When the scan types recorded today for the employee do not include \<open>check_in\<close>,
  \<open>detectScanType\<close> returns \<open>check_in\<close>, and \<open>isLate\<close> is true exactly when the scan's
  minutes from midnight exceed 9:15.
\<close>

theorem detectScanType_without_check_in:
  "''check_in'' \<notin> priorScanTypes db e t \<Longrightarrow>
   detectScanType (Some db) e t =
     \<lparr>scanType = ''check_in'', isLate = (minutesOfDay t > 9 * 60 + 15), isEarly = False\<rparr>"
  by (simp add: detectScanType_def priorScanTypes_def minutesOfDay_def Let_def threshold_defs)

text \<open>With no scan recorded yet: at 09:15 a check-in that is not late, at 09:16 a late one.\<close>

theorem detectScanType_without_check_in_witness:
  "detectScanType (Some (example_backend [] [])) ''emp-1'' (example_time 9 15 ''09:15'') =
     \<lparr>scanType = ''check_in'', isLate = False, isEarly = False\<rparr> \<and>
   detectScanType (Some (example_backend [] [])) ''emp-1'' (example_time 9 16 ''09:16'') =
     \<lparr>scanType = ''check_in'', isLate = True, isEarly = False\<rparr>"
  using detectScanType_without_check_in
          [of "example_backend [] []" "''emp-1''" "example_time 9 15 ''09:15''"]
        detectScanType_without_check_in
          [of "example_backend [] []" "''emp-1''" "example_time 9 16 ''09:16''"]
  by (simp add: priorScanTypes_def scansOn_def minutesOfDay_def example_defs)

text \<open>
  C4, as stated, fails: with \<open>lunch_in\<close> recorded and neither \<open>check_out\<close> nor
  \<open>check_in\<close>, the first branch of the chain wins and the scan is a \<open>check_in\<close>.
\<close>

theorem detectScanType_lunch_in_only_counterexample:
  "''lunch_in'' \<in> priorScanTypes (example_backend [example_scan ''lunch_in'' 13 0] []) ''emp-1''
                    (example_time 17 59 ''17:59'') \<and>
   ''check_out'' \<notin> priorScanTypes (example_backend [example_scan ''lunch_in'' 13 0] []) ''emp-1''
                    (example_time 17 59 ''17:59'') \<and>
   detectScanType (Some (example_backend [example_scan ''lunch_in'' 13 0] [])) ''emp-1''
     (example_time 17 59 ''17:59'') =
     \<lparr>scanType = ''check_in'', isLate = True, isEarly = False\<rparr> \<and>
   scanType (detectScanType (Some (example_backend [example_scan ''lunch_in'' 13 0] [])) ''emp-1''
     (example_time 17 59 ''17:59'')) \<noteq> ''check_out''"
  by (simp add: detectScanType_def priorScanTypes_def scansOn_def isoDate_def example_defs
      Let_def threshold_defs)

text \<open>
  C4, amended. When the scan types recorded today include \<open>check_in\<close> and \<open>lunch_in\<close> but
  not \<open>check_out\<close>, and either include \<open>lunch_out\<close> or the scan is before 12:00, the scan
  is a \<open>check_out\<close>, never late, and early exactly when its minutes from midnight are below
  18:00.
\<close>

theorem detectScanType_after_lunch_in:
  assumes "''check_in'' \<in> priorScanTypes db e t" "''lunch_in'' \<in> priorScanTypes db e t"
    "''check_out'' \<notin> priorScanTypes db e t"
    "''lunch_out'' \<in> priorScanTypes db e t \<or> minutesOfDay t < 12 * 60"
  shows "detectScanType (Some db) e t =
     \<lparr>scanType = ''check_out'', isLate = False, isEarly = (minutesOfDay t < 18 * 60)\<rparr>"
  using assms
  by (auto simp add: detectScanType_def priorScanTypes_def minutesOfDay_def Let_def threshold_defs)

text \<open>After check-in, lunch-out and lunch-in: early at 17:59, not early at 18:00 and 18:01.\<close>

theorem detectScanType_after_lunch_in_witness:
  "detectScanType
     (Some (example_backend [example_scan ''check_in'' 9 0, example_scan ''lunch_out'' 12 0,
                             example_scan ''lunch_in'' 13 0] []))
     ''emp-1'' (example_time 17 59 ''17:59'') =
     \<lparr>scanType = ''check_out'', isLate = False, isEarly = True\<rparr> \<and>
   detectScanType
     (Some (example_backend [example_scan ''check_in'' 9 0, example_scan ''lunch_out'' 12 0,
                             example_scan ''lunch_in'' 13 0] []))
     ''emp-1'' (example_time 18 0 ''18:00'') =
     \<lparr>scanType = ''check_out'', isLate = False, isEarly = False\<rparr> \<and>
   detectScanType
     (Some (example_backend [example_scan ''check_in'' 9 0, example_scan ''lunch_out'' 12 0,
                             example_scan ''lunch_in'' 13 0] []))
     ''emp-1'' (example_time 18 1 ''18:01'') =
     \<lparr>scanType = ''check_out'', isLate = False, isEarly = False\<rparr>"
  using detectScanType_after_lunch_in
          [of "example_backend [example_scan ''check_in'' 9 0, example_scan ''lunch_out'' 12 0,
                                example_scan ''lunch_in'' 13 0] []"
              "''emp-1''" "example_time 17 59 ''17:59''"]
        detectScanType_after_lunch_in
          [of "example_backend [example_scan ''check_in'' 9 0, example_scan ''lunch_out'' 12 0,
                                example_scan ''lunch_in'' 13 0] []"
              "''emp-1''" "example_time 18 0 ''18:00''"]
        detectScanType_after_lunch_in
          [of "example_backend [example_scan ''check_in'' 9 0, example_scan ''lunch_out'' 12 0,
                                example_scan ''lunch_in'' 13 0] []"
              "''emp-1''" "example_time 18 1 ''18:01''"]
  by (simp add: priorScanTypes_def scansOn_def minutesOfDay_def isoDate_def example_defs)

text \<open>
  C5. When only \<open>check_in\<close> of the four scan types is recorded today and the scan is strictly
  before 12:00, the guard of none of the rules 1 to 4 holds, and \<open>detectScanType\<close> returns what
  its final \<open>else\<close> returns: \<open>check_out\<close> with both flags false.
\<close>

theorem detectScanType_second_scan_before_noon:
  assumes "''check_in'' \<in> priorScanTypes db e t" "''lunch_out'' \<notin> priorScanTypes db e t"
    "''lunch_in'' \<notin> priorScanTypes db e t" "''check_out'' \<notin> priorScanTypes db e t"
    "minutesOfDay t < 12 * 60"
  shows "\<not> rule1 (priorScanTypes db e t) (minutesOfDay t) \<and>
         \<not> rule2 (priorScanTypes db e t) (minutesOfDay t) \<and>
         \<not> rule3 (priorScanTypes db e t) (minutesOfDay t) \<and>
         \<not> rule4 (priorScanTypes db e t) (minutesOfDay t) \<and>
         detectScanType (Some db) e t =
           \<lparr>scanType = ''check_out'', isLate = False, isEarly = False\<rparr>"
  using assms
  by (simp add: detectScanType_def priorScanTypes_def minutesOfDay_def Let_def
      threshold_defs rule_defs)

text \<open>A second scan at 10:30 after a check-in at 09:00 is classified as a check-out.\<close>

theorem detectScanType_second_scan_before_noon_witness:
  "detectScanType (Some (example_backend [example_scan ''check_in'' 9 0] [])) ''emp-1''
     (example_time 10 30 ''10:30'') =
     \<lparr>scanType = ''check_out'', isLate = False, isEarly = False\<rparr>"
  using detectScanType_second_scan_before_noon
          [of "example_backend [example_scan ''check_in'' 9 0] []" "''emp-1''"
              "example_time 10 30 ''10:30''"]
  by (simp add: priorScanTypes_def scansOn_def minutesOfDay_def isoDate_def example_defs)

text \<open>
  C10. Whatever the backend and the scan time, \<open>detectScanType\<close> returns one of the four scan
  types; \<open>isLate\<close> is true only for a \<open>check_in\<close> given by rule 1 after 9:15; \<open>isEarly\<close> is
  true only for a \<open>check_out\<close> given by rule 4 before 18:00; a \<open>lunch_out\<close> or \<open>lunch_in\<close>
  has both flags false; when no guard of rules 1 to 4 holds, and in particular with all four scan
  types recorded, the result is \<open>check_out\<close> with both flags false.
\<close>

theorem detectScanType_result_invariants:
  "(let r = detectScanType supabase e t in
      scanType r \<in> {''check_in'', ''lunch_out'', ''lunch_in'', ''check_out''} \<and>
      (isLate r \<longrightarrow> scanType r = ''check_in'' \<and>
         (\<exists>db. supabase = Some db \<and> rule1 (priorScanTypes db e t) (minutesOfDay t) \<and>
               minutesOfDay t > 9 * 60 + 15)) \<and>
      (isEarly r \<longrightarrow> scanType r = ''check_out'' \<and>
         (\<exists>db. supabase = Some db \<and>
            \<not> rule1 (priorScanTypes db e t) (minutesOfDay t) \<and>
            \<not> rule2 (priorScanTypes db e t) (minutesOfDay t) \<and>
            \<not> rule3 (priorScanTypes db e t) (minutesOfDay t) \<and>
            rule4 (priorScanTypes db e t) (minutesOfDay t) \<and> minutesOfDay t < 18 * 60)) \<and>
      (scanType r = ''lunch_out'' \<or> scanType r = ''lunch_in'' \<longrightarrow> \<not> isLate r \<and> \<not> isEarly r) \<and>
      (\<forall>db. supabase = Some db \<and>
           \<not> rule1 (priorScanTypes db e t) (minutesOfDay t) \<and>
           \<not> rule2 (priorScanTypes db e t) (minutesOfDay t) \<and>
           \<not> rule3 (priorScanTypes db e t) (minutesOfDay t) \<and>
           \<not> rule4 (priorScanTypes db e t) (minutesOfDay t) \<longrightarrow>
           r = \<lparr>scanType = ''check_out'', isLate = False, isEarly = False\<rparr>) \<and>
      (\<forall>db. supabase = Some db \<and>
           {''check_in'', ''lunch_out'', ''lunch_in'', ''check_out''} \<subseteq> priorScanTypes db e t \<longrightarrow>
           r = \<lparr>scanType = ''check_out'', isLate = False, isEarly = False\<rparr>))"
  by (cases supabase)
     (auto simp add: detectScanType_def priorScanTypes_def minutesOfDay_def Let_def
        threshold_defs rule_defs)

text \<open>With all four scans of the day recorded, a scan at 18:30 is a check-out, neither late nor early.\<close>

theorem detectScanType_result_invariants_witness:
  "detectScanType (Some (example_backend full_day_scans [])) ''emp-1''
     (example_time 18 30 ''18:30'') =
     \<lparr>scanType = ''check_out'', isLate = False, isEarly = False\<rparr>"
proof -
  have recorded:
    "{''check_in'', ''lunch_out'', ''lunch_in'', ''check_out''} \<subseteq>
       priorScanTypes (example_backend full_day_scans []) ''emp-1'' (example_time 18 30 ''18:30'')"
    by (simp add: priorScanTypes_def scansOn_def isoDate_def example_defs)
  have "\<forall>db. Some (example_backend full_day_scans []) = Some db \<and>
          {''check_in'', ''lunch_out'', ''lunch_in'', ''check_out''} \<subseteq>
            priorScanTypes db ''emp-1'' (example_time 18 30 ''18:30'') \<longrightarrow>
          detectScanType (Some (example_backend full_day_scans [])) ''emp-1''
            (example_time 18 30 ''18:30'') =
            \<lparr>scanType = ''check_out'', isLate = False, isEarly = False\<rparr>"
    using detectScanType_result_invariants
            [of "Some (example_backend full_day_scans [])" "''emp-1''"
                "example_time 18 30 ''18:30''"]
    unfolding Let_def by (elim conjE)
  with recorded show ?thesis by blast
qed

section \<open>The attendance writer\<close>

text \<open>
  C7. With the uniqueness constraint of \<open>leave_requests\<close> in force, if an approved leave
  request of the employee exists for the day of the scan, \<open>markAttendance\<close> fails with the
  message \<open>You are on full day leave today\<close> for a \<open>full_day\<close> leave and
  \<open>You are on half day leave today\<close> for any other leave type, whatever attendance rows
  exist and so whatever the scan would have been classified as, and the backend is left as it
  was.
\<close>

theorem markAttendance_blocked_by_approved_leave:
  assumes "leave_unique db" "l \<in> set (leave_requests db)"
    "leave_employee_id l = employeeId p" "leave_date l = isoDate t" "status l = ''approved''"
  shows "markAttendance (Some db) p t =
     (Inl (''You are on '' @ (if leave_type l = ''full_day'' then ''full day'' else ''half day'') @
           '' leave today''), Some db)"
  using approvedLeave_Some[OF assms(1,2) assms(3) assms(4) assms(5)]
  by (simp add: markAttendance_def Let_def)

text \<open>An approved morning half-day leave blocks the scan of an employee with a full day of scans.\<close>

theorem markAttendance_blocked_by_approved_leave_witness:
  "markAttendance (Some (example_backend full_day_scans [example_leave ''half_day_morning'']))
     example_payload (example_time 9 16 ''09:16'') =
     (Inl ''You are on half day leave today'',
      Some (example_backend full_day_scans [example_leave ''half_day_morning'']))"
  using markAttendance_blocked_by_approved_leave
          [of "example_backend full_day_scans [example_leave ''half_day_morning'']"
              "example_leave ''half_day_morning''" example_payload "example_time 9 16 ''09:16''"]
  by (simp add: leave_unique_def isoDate_def example_defs)

text \<open>
  C6, as stated, fails: with all four scans of the day recorded and a full-day leave approved,
  a row exists for the employee, the day and the classified scan type \<open>check_out\<close>, yet the
  error is the leave message and does not name the scan type.
\<close>

theorem markAttendance_duplicate_on_leave_counterexample:
  "existingScan (example_backend full_day_scans [example_leave ''full_day'']) ''emp-1''
     ''2025-01-15''
     (scanType (detectScanType (Some (example_backend full_day_scans [example_leave ''full_day'']))
                  ''emp-1'' (example_time 18 30 ''18:30''))) =
     Some (example_scan ''check_out'' 18 0) \<and>
   markAttendance (Some (example_backend full_day_scans [example_leave ''full_day'']))
     example_payload (example_time 18 30 ''18:30'') =
     (Inl ''You are on full day leave today'',
      Some (example_backend full_day_scans [example_leave ''full_day'']))"
  by (simp add: markAttendance_def detectScanType_def existingScan_def scansOfType_def
      approvedLeave_def single_def scansOn_def isoDate_def example_defs Let_def threshold_defs)

text \<open>
  C6, amended. If no approved leave request of the employee exists for the day of the scan and
  the table holds exactly one row for the employee, the day and the classified scan type, then
  \<open>markAttendance\<close> fails with the scan type, its underscore replaced by a space, followed by
  \<open>already recorded for today\<close>, and the backend is left as it was.
\<close>

theorem markAttendance_rejects_duplicate_scan:
  assumes "\<forall>l \<in> set (leave_requests db).
             \<not> (leave_employee_id l = employeeId p \<and> leave_date l = isoDate t \<and>
                status l = ''approved'')"
    and "length (scansOfType db (employeeId p) (isoDate t)
                  (scanType (detectScanType (Some db) (employeeId p) t))) = 1"
  shows "markAttendance (Some db) p t =
     (Inl (replace_first (CHR ''_'') (CHR '' '')
             (scanType (detectScanType (Some db) (employeeId p) t)) @
           '' already recorded for today''), Some db)"
proof -
  obtain x where "scansOfType db (employeeId p) (isoDate t)
                    (scanType (detectScanType (Some db) (employeeId p) t)) = [x]"
    using assms(2) by (auto simp: length_Suc_conv)
  then have "existingScan db (employeeId p) (isoDate t)
               (scanType (detectScanType (Some db) (employeeId p) t)) = Some x"
    by (simp add: existingScan_def single_def)
  then show ?thesis
    using approvedLeave_None[OF assms(1)]
    by (simp add: markAttendance_def Let_def)
qed

text \<open>After a full day of scans, a further scan at 18:30 is refused as a repeated check-out.\<close>

theorem markAttendance_rejects_duplicate_scan_witness:
  "markAttendance (Some (example_backend full_day_scans [])) example_payload
     (example_time 18 30 ''18:30'') =
     (Inl ''check out already recorded for today'', Some (example_backend full_day_scans []))"
  using markAttendance_rejects_duplicate_scan
          [of "example_backend full_day_scans []" example_payload "example_time 18 30 ''18:30''"]
  by (simp add: detectScanType_def scansOfType_def scansOn_def isoDate_def example_defs Let_def
      threshold_defs)

text \<open>
  C9. When \<open>markAttendance\<close> succeeds, the row it has stored, the last of the table, has
  \<open>is_half_day\<close> true exactly when the classified scan type is \<open>check_in\<close> and the hour of
  the scan is below 12; nothing else enters the flag.
\<close>

theorem markAttendance_half_day_flag:
  assumes "markAttendance (Some db) p t = (Inr (row, st), db')"
  shows "is_half_day row = (st = ''check_in'' \<and> getHours t < 12) \<and> scan_type row = st \<and>
         st = scanType (detectScanType (Some db) (employeeId p) t) \<and>
         db' = Some (db\<lparr>attendance_records := attendance_records db @ [row]\<rparr>)"
  using assms
  by (auto simp add: markAttendance_def Let_def
      split: option.splits sum.splits dest!: insert_attendance_Inr)

text \<open>The first scan of the day at 09:16 is stored as a late check-in flagged as a half day.\<close>

theorem markAttendance_half_day_flag_witness:
  "markAttendance (Some (example_backend [] [])) example_payload (example_time 9 16 ''09:16'') =
     (Inr ((example_scan ''check_in'' 9 16)\<lparr>is_late := True, is_half_day := True\<rparr>, ''check_in''),
      Some (example_backend [(example_scan ''check_in'' 9 16)\<lparr>is_late := True, is_half_day := True\<rparr>] []))
   \<and> is_half_day ((example_scan ''check_in'' 9 16)\<lparr>is_late := True, is_half_day := True\<rparr>) =
       (''check_in'' = ''check_in'' \<and> getHours (example_time 9 16 ''09:16'') < 12)"
proof -
  have run:
    "markAttendance (Some (example_backend [] [])) example_payload (example_time 9 16 ''09:16'') =
       (Inr ((example_scan ''check_in'' 9 16)\<lparr>is_late := True, is_half_day := True\<rparr>, ''check_in''),
        Some (example_backend [(example_scan ''check_in'' 9 16)\<lparr>is_late := True, is_half_day := True\<rparr>] []))"
    by (simp add: markAttendance_def detectScanType_def existingScan_def scansOfType_def
        approvedLeave_def single_def scansOn_def isoDate_def example_defs Let_def threshold_defs
        insert_attendance_def department_or_null_def)
  from markAttendance_half_day_flag[OF run] run show ?thesis by simp
qed

section \<open>The daily summary\<close>

text \<open>
  C8, as stated, fails: with check-in 09:00, lunch 12:00 to 13:00 and check-out 18:10 the
  quotient \<open>(checkOut - checkIn - lunchDuration) / 60\<close> is \<open>49/6\<close> hours, and the summary
  reports the double \<open>8.17\<close>, which is neither \<open>49/6\<close> nor the double nearest to it.
\<close>

theorem getDailySummary_rounds_counterexample:
  "map_sum id totalHours
     (getDailySummary (Some (example_backend overtime_scans [])) ''emp-1''
        (example_time 20 0 ''20:00'')) = Inr (Some (to_double (817 / 100))) \<and>
   (of_int (scanned_at (example_scan ''check_out'' 18 10) - scanned_at (example_scan ''check_in'' 9 0))
      / 60000
    - of_int (scanned_at (example_scan ''lunch_in'' 13 0) - scanned_at (example_scan ''lunch_out'' 12 0))
      / 60000) / 60 = (49 / 6 :: rat) \<and>
   to_double (817 / 100) \<noteq> 49 / 6 \<and>
   to_double (817 / 100) \<noteq> to_double (49 / 6)"
  by code_simp

text \<open>
  C8, amended. For timestamps in the range of JavaScript dates, the daily summary selects, for
  each scan type, at most one row of that type among the employee's rows of the date, an
  earliest one if there is any; \<open>isComplete\<close> is true exactly when a check-in and a check-out
  are selected; and when both are, \<open>totalHours\<close> is the quotient
  \<open>(checkOut - checkIn - lunchDuration) / 60\<close>, computed in double arithmetic and then rounded
  to two decimals (\<^verbatim>\<open>parseFloat(x.toFixed(2))\<close>), whenever that quotient is not zero, where
  \<open>lunchDuration = lunchIn - lunchOut\<close> in minutes is subtracted only when both lunch rows are
  selected, and \<open>lunchDuration\<close> is reported rounded to whole minutes whenever it is not zero.
  With check-in, lunch-out three hours later, lunch-in one hour after that and check-out five
  hours after that (09:00, 12:00, 13:00, 18:00), \<open>totalHours\<close> is 8 and \<open>lunchDuration\<close> is 60.
\<close>

theorem getDailySummary_fold:
  assumes "getDailySummary (Some db) e d = Inr s" and "valid_time_values db"
  shows
   "selected_of_type db e (isoDate d) ''check_in'' (checkIn s) \<and>
    selected_of_type db e (isoDate d) ''lunch_out'' (lunchOut s) \<and>
    selected_of_type db e (isoDate d) ''lunch_in'' (lunchIn s) \<and>
    selected_of_type db e (isoDate d) ''check_out'' (checkOut s) \<and>
    isComplete s = (checkIn s \<noteq> None \<and> checkOut s \<noteq> None) \<and>
    (checkIn s = Some ci \<and> checkOut s = Some co \<longrightarrow>
       (let lunch = (case (lunchOut s, lunchIn s) of
                       (Some lo, Some li) \<Rightarrow> Some (minutesBetween lo li) | _ \<Rightarrow> None);
            hours = (case lunch of
                       Some l \<Rightarrow> to_double (to_double (minutesBetween ci co - l) / 60)
                     | None \<Rightarrow> to_double (minutesBetween ci co / 60))
        in (hours \<noteq> 0 \<longrightarrow> totalHours s = Some (parseFloat_toFixed2 hours)) \<and>
           (\<forall>l. lunch = Some l \<and> l \<noteq> 0 \<longrightarrow> lunchDuration s = Some (Math_round l)))) \<and>
    (checkIn s = Some ci \<and> lunchOut s = Some lo' \<and> lunchIn s = Some li' \<and> checkOut s = Some co \<and>
       scanned_at lo' - scanned_at ci = 180 * 60000 \<and>
       scanned_at li' - scanned_at lo' = 60 * 60000 \<and>
       scanned_at co - scanned_at li' = 300 * 60000 \<longrightarrow>
       totalHours s = Some 8 \<and> lunchDuration s = Some 60)"
proof -
  note selection = getDailySummary_selection[OF assms(1)]
  note hours = getDailySummary_hours[OF assms(1), of ci co]
  have example: "totalHours s = Some 8 \<and> lunchDuration s = Some 60"
    if h: "checkIn s = Some ci" "lunchOut s = Some lo'" "lunchIn s = Some li'"
          "checkOut s = Some co"
      and d1: "scanned_at lo' - scanned_at ci = 180 * 60000"
      and d2: "scanned_at li' - scanned_at lo' = 60 * 60000"
      and d3: "scanned_at co - scanned_at li' = 300 * 60000"
  proof -
    have day: "scanned_at co - scanned_at ci = 32400000" using d1 d2 d3 by linarith
    have "to_double (to_double (of_int 32400000) / (1000 * 60)) = (540 :: rat)" by code_simp
    then have tm: "minutesBetween ci co = 540" unfolding minutesBetween_def day .
    have lunch: "scanned_at li' - scanned_at lo' = 3600000" using d2 by simp
    have "to_double (to_double (of_int 3600000) / (1000 * 60)) = (60 :: rat)" by code_simp
    then have lm: "minutesBetween lo' li' = 60" unfolding minutesBetween_def lunch .
    have th: "to_double (to_double 480 / 60) = (8 :: rat)" by code_simp
    have rep: "parseFloat_toFixed2 8 = 8" by code_simp
    have rnd: "Math_round 60 = 60" by code_simp
    from hours h show ?thesis
      by (simp add: tm lm th rep rnd Let_def del: of_int_numeral)
  qed
  from selection hours example show ?thesis by blast
qed

text \<open>The day 09:00, 12:00, 13:00, 18:00 gives eight hours of work and sixty minutes of lunch.\<close>

theorem getDailySummary_fold_witness:
  "valid_time_values (example_backend full_day_scans []) \<and>
   getDailySummary (Some (example_backend full_day_scans [])) ''emp-1''
     (example_time 20 0 ''20:00'') = Inr full_day_summary \<and>
   totalHours full_day_summary = Some 8 \<and> lunchDuration full_day_summary = Some 60 \<and>
   isComplete full_day_summary"
proof -
  have valid: "valid_time_values (example_backend full_day_scans [])"
    by (simp add: valid_time_values_def example_defs)
  from getDailySummary_fold
          [OF full_day_summary_eval valid, of "example_scan ''check_in'' 9 0"
              "example_scan ''check_out'' 18 0" "example_scan ''lunch_out'' 12 0"
              "example_scan ''lunch_in'' 13 0"]
  have "totalHours full_day_summary = Some 8 \<and> lunchDuration full_day_summary = Some 60"
    by (simp add: full_day_summary_def example_scan_def)
  with valid full_day_summary_eval show ?thesis
    by (simp add: full_day_summary_def)
qed

end
